theory Spec2Isabelle
  imports Complex_Main "HOL-Library.Char_ord" "HOL-Library.List_Lexorder"
begin

section \<open>Data model of \<^verbatim>\<open>backend/server.py\<close>\<close>

text \<open>
  The pydantic models become records (field names carry a prefix because record fields
  share one name space). Python's \<^verbatim>\<open>float\<close> amounts are modelled as exact
  rationals: rounding of binary floating point is outside this development. Identifiers,
  statuses, roles and ISO timestamps are strings, as in the source.
\<close>

type_synonym money = rat

record User =
  u_id :: string
  u_email :: string
  u_name :: string
  u_balance :: money
  u_role :: string
  u_created_at :: string
  u_password_hash :: string

record Service =
  s_id :: string
  s_platform :: string
  s_service_type :: string
  s_name :: string
  s_rate :: money
  s_min_quantity :: int
  s_max_quantity :: int
  s_description :: string
  s_created_at :: string

record Order =
  o_id :: string
  o_user_id :: string
  o_service_id :: string
  o_link :: string
  o_quantity :: int
  o_total_cost :: money
  o_status :: string
  o_created_at :: string
  o_completed_at :: "string option"

record OrderCreate =
  oc_service_id :: string
  oc_link :: string
  oc_quantity :: int

record Transaction =
  t_id :: string
  t_user_id :: string
  t_amount :: money
  t_type :: string
  t_status :: string
  t_created_at :: string

text \<open>The four collections of the database; a collection is the list of its documents
  in insertion order.\<close>

record db =
  users :: "User list"
  services :: "Service list"
  orders :: "Order list"
  transactions :: "Transaction list"

text \<open>
  Every \<^verbatim>\<open>HTTPException\<close> the handlers raise, named by what it reports, with its
  status code. The source's detail strings are, in the order of the constructors:
  "Token expired", "Invalid token", "User not found", "Admin access required",
  "Service not found", "Quantity must be between min and max" (with the two bounds),
  "Insufficient balance", "Order not found", "Amount must be positive", "Invalid status",
  "Invalid action", "Transaction not found", "Transaction already processed".
\<close>

datatype error =
    TokenExpired
  | InvalidToken
  | UserNotFound
  | AdminRequired
  | ServiceNotFound
  | QuantityOutOfRange int int
  | InsufficientBalance
  | OrderNotFound
  | InvalidAmount
  | InvalidStatus
  | InvalidAction
  | TransactionNotFound
  | AlreadyProcessed

fun status_code :: "error \<Rightarrow> nat" where
  "status_code TokenExpired = 401"
| "status_code InvalidToken = 401"
| "status_code UserNotFound = 401"
| "status_code AdminRequired = 403"
| "status_code ServiceNotFound = 404"
| "status_code (QuantityOutOfRange lo hi) = 400"
| "status_code InsufficientBalance = 400"
| "status_code OrderNotFound = 404"
| "status_code InvalidAmount = 400"
| "status_code InvalidStatus = 400"
| "status_code InvalidAction = 400"
| "status_code TransactionNotFound = 404"
| "status_code AlreadyProcessed = 400"

section \<open>The document-store operations the handlers call\<close>

text \<open>\<^verbatim>\<open>find_one\<close> returns the first document that matches the filter.\<close>

definition find_one :: "('a \<Rightarrow> bool) \<Rightarrow> 'a list \<Rightarrow> 'a option" where
  "find_one P xs = find P xs"

text \<open>\<^verbatim>\<open>insert_one\<close> appends the document.\<close>

definition insert_one :: "'a \<Rightarrow> 'a list \<Rightarrow> 'a list" where
  "insert_one x xs = xs @ [x]"

record UpdateResult =
  matched_count :: nat
  modified_count :: nat

fun update_first :: "('a \<Rightarrow> bool) \<Rightarrow> ('a \<Rightarrow> 'a) \<Rightarrow> 'a list \<Rightarrow> 'a list" where
  "update_first P f [] = []"
| "update_first P f (x # xs) = (if P x then f x # xs else x # update_first P f xs)"

text \<open>
  \<^verbatim>\<open>update_one\<close> applies the update to the first matching document only. Its result
  counts the matched document, and counts it as modified only when the update changed it:
  a \<^verbatim>\<open>$set\<close> to the values the document already holds modifies nothing.
\<close>

definition update_one ::
  "('a \<Rightarrow> bool) \<Rightarrow> ('a \<Rightarrow> 'a) \<Rightarrow> 'a list \<Rightarrow> 'a list \<times> UpdateResult" where
  "update_one P f xs =
     (case find_one P xs of
        None \<Rightarrow> (xs, \<lparr>matched_count = 0, modified_count = 0\<rparr>)
      | Some x \<Rightarrow>
          (update_first P f xs,
           \<lparr>matched_count = 1, modified_count = (if f x = x then 0 else 1)\<rparr>))"

text \<open>
  \<^verbatim>\<open>find(q).sort("created_at", -1).to_list(1000)\<close>: the matching documents, newest
  timestamp first, at most 1000 of them. The store does not fix the order of documents
  with equal timestamps; here they come out in reverse insertion order.
\<close>

definition find_sorted_desc :: "('a \<Rightarrow> bool) \<Rightarrow> ('a \<Rightarrow> string) \<Rightarrow> 'a list \<Rightarrow> 'a list" where
  "find_sorted_desc P key xs = take 1000 (rev (sort_key key (filter P xs)))"

section \<open>Authentication dependencies\<close>

text \<open>What \<^verbatim>\<open>jwt.decode\<close> did with the bearer token: it raised one of its two
  errors, or returned a payload whose \<^verbatim>\<open>user_id\<close> entry may be missing.\<close>

datatype jwt_result = ExpiredSignatureError | InvalidTokenError | Payload "string option"

definition get_current_user :: "db \<Rightarrow> jwt_result \<Rightarrow> error + User" where
  "get_current_user d tok =
     (case tok of
        ExpiredSignatureError \<Rightarrow> Inl TokenExpired
      | InvalidTokenError \<Rightarrow> Inl InvalidToken
      | Payload user_id \<Rightarrow>
          (case find_one (\<lambda>u. Some (u_id u) = user_id) (users d) of
             None \<Rightarrow> Inl UserNotFound
           | Some user \<Rightarrow> Inr user))"

definition get_admin_user :: "db \<Rightarrow> jwt_result \<Rightarrow> error + User" where
  "get_admin_user d tok =
     (case get_current_user d tok of
        Inl e \<Rightarrow> Inl e
      | Inr current_user \<Rightarrow>
          if u_role current_user \<noteq> ''admin'' then Inl AdminRequired else Inr current_user)"

section \<open>Order routes\<close>

text \<open>
  A handler takes the database and returns the database it leaves behind together with
  its response or the exception it raised. The fresh \<^verbatim>\<open>uuid4\<close> identifier and the
  current time are parameters.
\<close>

definition total_cost_of :: "int \<Rightarrow> money \<Rightarrow> money" where
  "total_cost_of quantity rate = (of_int quantity / 1000) * rate"

definition new_order :: "User \<Rightarrow> OrderCreate \<Rightarrow> money \<Rightarrow> string \<Rightarrow> string \<Rightarrow> Order" where
  "new_order current_user order_data total_cost new_id now =
     \<lparr>o_id = new_id,
      o_user_id = u_id current_user,
      o_service_id = oc_service_id order_data,
      o_link = oc_link order_data,
      o_quantity = oc_quantity order_data,
      o_total_cost = total_cost,
      o_status = ''pending'',
      o_created_at = now,
      o_completed_at = None\<rparr>"

definition inc_balance :: "string \<Rightarrow> money \<Rightarrow> User list \<Rightarrow> User list" where
  "inc_balance uid amount us =
     fst (update_one (\<lambda>u. u_id u = uid) (\<lambda>u. u\<lparr>u_balance := u_balance u + amount\<rparr>) us)"

definition create_order ::
  "db \<Rightarrow> OrderCreate \<Rightarrow> User \<Rightarrow> string \<Rightarrow> string \<Rightarrow> db \<times> (error + Order)" where
  "create_order d order_data current_user new_id now =
     (case find_one (\<lambda>s. s_id s = oc_service_id order_data) (services d) of
        None \<Rightarrow> (d, Inl ServiceNotFound)
      | Some service \<Rightarrow>
          if oc_quantity order_data < s_min_quantity service
             \<or> oc_quantity order_data > s_max_quantity service
          then (d, Inl (QuantityOutOfRange (s_min_quantity service) (s_max_quantity service)))
          else
            let total_cost = total_cost_of (oc_quantity order_data) (s_rate service) in
            if u_balance current_user < total_cost then (d, Inl InsufficientBalance)
            else
              let order = new_order current_user order_data total_cost new_id now;
                  d1 = d\<lparr>users := inc_balance (u_id current_user) (- total_cost) (users d)\<rparr>;
                  d2 = d1\<lparr>orders := insert_one order (orders d1)\<rparr>
              in (d2, Inr order))"

definition get_user_orders :: "db \<Rightarrow> User \<Rightarrow> Order list" where
  "get_user_orders d current_user =
     find_sorted_desc (\<lambda>ord. o_user_id ord = u_id current_user) o_created_at (orders d)"

definition get_order :: "db \<Rightarrow> string \<Rightarrow> User \<Rightarrow> error + Order" where
  "get_order d order_id current_user =
     (case find_one (\<lambda>ord. o_id ord = order_id \<and> o_user_id ord = u_id current_user) (orders d) of
        None \<Rightarrow> Inl OrderNotFound
      | Some order \<Rightarrow> Inr order)"

section \<open>User routes\<close>

definition request_deposit ::
  "db \<Rightarrow> money \<Rightarrow> User \<Rightarrow> string \<Rightarrow> string \<Rightarrow> db \<times> (error + Transaction)" where
  "request_deposit d amount current_user new_id now =
     (if amount \<le> 0 then (d, Inl InvalidAmount)
      else
        let transaction =
              \<lparr>t_id = new_id, t_user_id = u_id current_user, t_amount = amount,
               t_type = ''deposit'', t_status = ''pending'', t_created_at = now\<rparr>
        in (d\<lparr>transactions := insert_one transaction (transactions d)\<rparr>, Inr transaction))"

section \<open>Admin routes\<close>

definition set_status :: "string \<Rightarrow> string \<Rightarrow> Order \<Rightarrow> Order" where
  "set_status status now ord =
     (if status = ''completed''
      then ord\<lparr>o_status := status, o_completed_at := Some now\<rparr>
      else ord\<lparr>o_status := status\<rparr>)"

definition update_order_status :: "db \<Rightarrow> string \<Rightarrow> string \<Rightarrow> string \<Rightarrow> db \<times> (error + string)" where
  "update_order_status d order_id status now =
     (if status \<notin> set [''pending'', ''processing'', ''completed'', ''cancelled'']
      then (d, Inl InvalidStatus)
      else
        let (os, result) = update_one (\<lambda>ord. o_id ord = order_id) (set_status status now) (orders d);
            d1 = d\<lparr>orders := os\<rparr>
        in if modified_count result = 0 then (d1, Inl OrderNotFound)
           else (d1, Inr ''Order status updated''))"

definition approve_deposit :: "db \<Rightarrow> string \<Rightarrow> string \<Rightarrow> db \<times> (error + string)" where
  "approve_deposit d transaction_id action =
     (if action \<notin> set [''approve'', ''reject''] then (d, Inl InvalidAction)
      else
        case find_one (\<lambda>t. t_id t = transaction_id) (transactions d) of
          None \<Rightarrow> (d, Inl TransactionNotFound)
        | Some transaction \<Rightarrow>
            if t_status transaction \<noteq> ''pending'' then (d, Inl AlreadyProcessed)
            else
              let new_status = (if action = ''approve'' then ''approved'' else ''rejected'');
                  d1 = d\<lparr>transactions :=
                          fst (update_one (\<lambda>t. t_id t = transaction_id)
                                 (\<lambda>t. t\<lparr>t_status := new_status\<rparr>) (transactions d))\<rparr>;
                  d2 = (if action = ''approve''
                        then d1\<lparr>users := inc_balance (t_user_id transaction)
                                            (t_amount transaction) (users d1)\<rparr>
                        else d1)
              in (d2, Inr (''Deposit '' @ new_status)))"

section \<open>Serial execution of requests\<close>

text \<open>
  One request, served alone from its first storage call to its last: the dependency
  (\<^verbatim>\<open>Depends(get_current_user)\<close> or \<^verbatim>\<open>Depends(get_admin_user)\<close>) loads the caller,
  then the handler runs on the same database.
\<close>

datatype request =
    PlaceOrder jwt_result OrderCreate string string
  | ListOrders jwt_result
  | GetOrder jwt_result string
  | GetBalance jwt_result
  | RequestDeposit jwt_result money string string
  | SetOrderStatus jwt_result string string string
  | ResolveDeposit jwt_result string string

datatype response =
    OrderResponse Order
  | OrdersResponse "Order list"
  | BalanceResponse money
  | TransactionResponse Transaction
  | MessageResponse string

definition lift_response :: "('a \<Rightarrow> response) \<Rightarrow> db \<times> (error + 'a) \<Rightarrow> db \<times> (error + response)" where
  "lift_response c r = (fst r, map_sum id c (snd r))"

fun handle :: "db \<Rightarrow> request \<Rightarrow> db \<times> (error + response)" where
  "handle d (PlaceOrder tok order_data new_id now) =
     (case get_current_user d tok of
        Inl e \<Rightarrow> (d, Inl e)
      | Inr current_user \<Rightarrow>
          lift_response OrderResponse (create_order d order_data current_user new_id now))"
| "handle d (ListOrders tok) =
     (case get_current_user d tok of
        Inl e \<Rightarrow> (d, Inl e)
      | Inr current_user \<Rightarrow> (d, Inr (OrdersResponse (get_user_orders d current_user))))"
| "handle d (GetOrder tok order_id) =
     (case get_current_user d tok of
        Inl e \<Rightarrow> (d, Inl e)
      | Inr current_user \<Rightarrow> (d, map_sum id OrderResponse (get_order d order_id current_user)))"
| "handle d (GetBalance tok) =
     (case get_current_user d tok of
        Inl e \<Rightarrow> (d, Inl e)
      | Inr current_user \<Rightarrow> (d, Inr (BalanceResponse (u_balance current_user))))"
| "handle d (RequestDeposit tok amount new_id now) =
     (case get_current_user d tok of
        Inl e \<Rightarrow> (d, Inl e)
      | Inr current_user \<Rightarrow>
          lift_response TransactionResponse (request_deposit d amount current_user new_id now))"
| "handle d (SetOrderStatus tok order_id status now) =
     (case get_admin_user d tok of
        Inl e \<Rightarrow> (d, Inl e)
      | Inr admin \<Rightarrow> lift_response MessageResponse (update_order_status d order_id status now))"
| "handle d (ResolveDeposit tok transaction_id action) =
     (case get_admin_user d tok of
        Inl e \<Rightarrow> (d, Inl e)
      | Inr admin \<Rightarrow> lift_response MessageResponse (approve_deposit d transaction_id action))"

text \<open>Requests served one after the other, each on the database the previous one left.\<close>

fun serve :: "db \<Rightarrow> request list \<Rightarrow> db \<times> (error + response) list" where
  "serve d [] = (d, [])"
| "serve d (r # rs) =
     (let (d1, out) = handle d r; (d2, outs) = serve d1 rs in (d2, out # outs))"

section \<open>The balance the store holds for a user\<close>

definition stored_balance :: "db \<Rightarrow> string \<Rightarrow> money option" where
  "stored_balance d uid = map_option u_balance (find_one (\<lambda>u. u_id u = uid) (users d))"

section \<open>Credits and debits of a serial run\<close>

text \<open>
  What a served request contributes to the ledger: the deposit an administrator's
  \<open>approve\<close> resolved (the transaction as it was stored when the request arrived), and
  the order a successful placement returned. Every other request, and every request
  that fails, contributes neither.
\<close>

fun approved_deposit :: "db \<Rightarrow> request \<Rightarrow> Transaction option" where
  "approved_deposit d (ResolveDeposit tok transaction_id action) =
     (case snd (handle d (ResolveDeposit tok transaction_id action)) of
        Inl e \<Rightarrow> None
      | Inr resp \<Rightarrow>
          if action = ''approve''
          then find_one (\<lambda>t. t_id t = transaction_id) (transactions d)
          else None)"
| "approved_deposit d r = None"

fun placed_order :: "db \<Rightarrow> request \<Rightarrow> Order option" where
  "placed_order d (PlaceOrder tok order_data new_id now) =
     (case snd (handle d (PlaceOrder tok order_data new_id now)) of
        Inr (OrderResponse ord) \<Rightarrow> Some ord
      | _ \<Rightarrow> None)"
| "placed_order d r = None"

definition credit :: "string \<Rightarrow> db \<Rightarrow> request \<Rightarrow> money" where
  "credit uid d r =
     (case approved_deposit d r of
        Some t \<Rightarrow> if t_user_id t = uid then t_amount t else 0
      | None \<Rightarrow> 0)"

definition debit :: "string \<Rightarrow> db \<Rightarrow> request \<Rightarrow> money" where
  "debit uid d r =
     (case placed_order d r of
        Some ord \<Rightarrow> if o_user_id ord = uid then o_total_cost ord else 0
      | None \<Rightarrow> 0)"

text \<open>The sums over a list of requests served one after the other.\<close>

fun credits :: "string \<Rightarrow> db \<Rightarrow> request list \<Rightarrow> money" where
  "credits uid d [] = 0"
| "credits uid d (r # rs) = credit uid d r + credits uid (fst (handle d r)) rs"

fun debits :: "string \<Rightarrow> db \<Rightarrow> request list \<Rightarrow> money" where
  "debits uid d [] = 0"
| "debits uid d (r # rs) = debit uid d r + debits uid (fst (handle d r)) rs"

section \<open>Interleaved execution of two order placements\<close>

text \<open>
  The server is one asynchronous process: a request runs until its next \<^verbatim>\<open>await\<close> of a
  storage call, and another request may run between that call and the next. An order
  placement has four storage calls: the caller is loaded (in the dependency), the
  service is loaded, the balance is decremented, the order is inserted. A task records
  which call comes next and the local variables the handler holds at that point; the
  quantity and balance checks run between the second and the third call, on those local
  variables.
\<close>

datatype order_task =
    AwaitUser jwt_result OrderCreate string string
  | AwaitService User OrderCreate string string
  | AwaitDebit User Order
  | AwaitInsert Order
  | Finished "error + Order"

fun step :: "db \<Rightarrow> order_task \<Rightarrow> db \<times> order_task" where
  "step d (AwaitUser tok order_data new_id now) =
     (d, case get_current_user d tok of
           Inl e \<Rightarrow> Finished (Inl e)
         | Inr current_user \<Rightarrow> AwaitService current_user order_data new_id now)"
| "step d (AwaitService current_user order_data new_id now) =
     (d, case find_one (\<lambda>s. s_id s = oc_service_id order_data) (services d) of
           None \<Rightarrow> Finished (Inl ServiceNotFound)
         | Some service \<Rightarrow>
             if oc_quantity order_data < s_min_quantity service
                \<or> oc_quantity order_data > s_max_quantity service
             then Finished (Inl (QuantityOutOfRange (s_min_quantity service)
                                   (s_max_quantity service)))
             else
               let total_cost = total_cost_of (oc_quantity order_data) (s_rate service) in
               if u_balance current_user < total_cost then Finished (Inl InsufficientBalance)
               else AwaitDebit current_user
                      (new_order current_user order_data total_cost new_id now))"
| "step d (AwaitDebit current_user order) =
     (d\<lparr>users := inc_balance (u_id current_user) (- o_total_cost order) (users d)\<rparr>,
      AwaitInsert order)"
| "step d (AwaitInsert order) =
     (d\<lparr>orders := insert_one order (orders d)\<rparr>, Finished (Inr order))"
| "step d (Finished r) = (d, Finished r)"

text \<open>A schedule says which of two tasks takes the next step: \<open>True\<close> the first,
  \<open>False\<close> the second.\<close>

fun interleave :: "db \<Rightarrow> order_task \<Rightarrow> order_task \<Rightarrow> bool list \<Rightarrow> db \<times> order_task \<times> order_task" where
  "interleave d p q [] = (d, p, q)"
| "interleave d p q (True # schedule) =
     (let (d1, p1) = step d p in interleave d1 p1 q schedule)"
| "interleave d p q (False # schedule) =
     (let (d1, q1) = step d q in interleave d1 p q1 schedule)"

text \<open>One task run alone through its four storage calls.\<close>

definition run_alone :: "db \<Rightarrow> order_task \<Rightarrow> db \<times> order_task" where
  "run_alone d p =
     (let (d1, p1) = step d p; (d2, p2) = step d1 p1; (d3, p3) = step d2 p2 in step d3 p3)"

section \<open>Example data\<close>

text \<open>A catalog entry priced 2.50 per 1000 with bounds 100 and 10000, a user, an
  administrator, and an order of 500 units.\<close>

definition example_service :: Service where
  "example_service =
     \<lparr>s_id = ''s1'', s_platform = ''instagram'', s_service_type = ''followers'',
      s_name = ''Instagram Followers'', s_rate = 5 / 2, s_min_quantity = 100,
      s_max_quantity = 10000, s_description = ''followers'', s_created_at = ''2024-01-01''\<rparr>"

definition example_user :: "string \<Rightarrow> money \<Rightarrow> User" where
  "example_user uid b =
     \<lparr>u_id = uid, u_email = uid @ ''@example.com'', u_name = uid, u_balance = b,
      u_role = ''user'', u_created_at = ''2024-01-01'', u_password_hash = ''hash''\<rparr>"

definition example_admin :: User where
  "example_admin = (example_user ''root'' 0)\<lparr>u_role := ''admin''\<rparr>"

definition example_db :: "money \<Rightarrow> db" where
  "example_db b =
     \<lparr>users = [example_user ''alice'' b, example_user ''bob'' 10, example_admin],
      services = [example_service], orders = [], transactions = []\<rparr>"

definition example_order_data :: "int \<Rightarrow> OrderCreate" where
  "example_order_data q = \<lparr>oc_service_id = ''s1'', oc_link = ''https://example.com/p'', oc_quantity = q\<rparr>"

definition alice :: jwt_result where
  "alice = Payload (Some ''alice'')"

definition bob :: jwt_result where
  "bob = Payload (Some ''bob'')"

definition root :: jwt_result where
  "root = Payload (Some ''root'')"

text \<open>The same database with two stored orders, one of each user, and one pending
  deposit of 20 requested by the first user.\<close>

definition example_order :: "string \<Rightarrow> string \<Rightarrow> string \<Rightarrow> string \<Rightarrow> string option \<Rightarrow> Order" where
  "example_order oid uid status created completed =
     \<lparr>o_id = oid, o_user_id = uid, o_service_id = ''s1'', o_link = ''https://example.com/p'',
      o_quantity = 1000, o_total_cost = 5 / 2, o_status = status, o_created_at = created,
      o_completed_at = completed\<rparr>"

definition example_deposit :: Transaction where
  "example_deposit =
     \<lparr>t_id = ''t1'', t_user_id = ''alice'', t_amount = 20, t_type = ''deposit'',
      t_status = ''pending'', t_created_at = ''2024-01-04''\<rparr>"

definition example_shop :: db where
  "example_shop =
     (example_db 0)
       \<lparr>orders := [example_order ''o1'' ''alice'' ''pending'' ''2024-01-02'' None,
                   example_order ''o2'' ''bob'' ''completed'' ''2024-01-03'' (Some ''2024-01-05'')],
        transactions := [example_deposit]\<rparr>"

text \<open>A serial run on that database: the administrator approves the deposit, the first
  user places an order of 1000 units and then one of 10000 units that the balance does
  not cover, and the administrator tries to reject the deposit already approved.\<close>

definition example_requests :: "request list" where
  "example_requests =
     [ResolveDeposit root ''t1'' ''approve'',
      PlaceOrder alice (example_order_data 1000) ''o3'' ''2024-02-01'',
      PlaceOrder alice (example_order_data 10000) ''o4'' ''2024-02-02'',
      ResolveDeposit root ''t1'' ''reject'']"

section \<open>Properties of the store operations\<close>

lemma find_one_update_first_same:
  "(\<And>x. P x \<Longrightarrow> P (f x)) \<Longrightarrow> find_one P (update_first P f xs) = map_option f (find_one P xs)"
  by (induction xs) (auto simp: find_one_def)

lemma find_one_update_first_other:
  "(\<And>x. Q (f x) = Q x) \<Longrightarrow> (\<And>x. P x \<Longrightarrow> \<not> Q x) \<Longrightarrow>
   find_one Q (update_first P f xs) = find_one Q xs"
  by (induction xs) (auto simp: find_one_def)

lemma update_first_no_match: "find_one P xs = None \<Longrightarrow> update_first P f xs = xs"
  by (induction xs) (auto simp: find_one_def split: if_splits)

lemma find_one_Some_P: "find_one P xs = Some x \<Longrightarrow> P x \<and> x \<in> set xs"
  by (induction xs) (auto simp: find_one_def split: if_splits)

lemma inc_balance_eq: "inc_balance uid a us = update_first (\<lambda>u. u_id u = uid) (\<lambda>u. u\<lparr>u_balance := u_balance u + a\<rparr>) us"
  by (simp add: inc_balance_def update_one_def update_first_no_match split: option.splits)

lemma stored_balance_inc:
  "stored_balance (d\<lparr>users := inc_balance uid a (users d)\<rparr>) uid' =
     (if uid' = uid then map_option (\<lambda>b. b + a) (stored_balance d uid') else stored_balance d uid')"
proof (cases "uid' = uid")
  case True
  then show ?thesis
    by (simp add: stored_balance_def inc_balance_eq find_one_update_first_same option.map_comp comp_def)
next
  case False
  have "find_one (\<lambda>u. u_id u = uid') (update_first (\<lambda>u. u_id u = uid) (\<lambda>u. u\<lparr>u_balance := u_balance u + a\<rparr>) (users d))
      = find_one (\<lambda>u. u_id u = uid') (users d)"
    using False by (intro find_one_update_first_other) auto
  with False show ?thesis
    by (simp add: stored_balance_def inc_balance_eq)
qed

lemma example_find_service:
  "find_one (\<lambda>s. s_id s = oc_service_id (example_order_data q)) (services (example_db b))
     = Some example_service"
  by (simp add: example_db_def example_order_data_def example_service_def find_one_def)

lemma example_current_user:
  "get_current_user (example_db b) alice = Inr (example_user ''alice'' b)"
  by (simp add: example_db_def example_user_def alice_def find_one_def get_current_user_def)

subsection \<open>What a handler's outcome says about its run\<close>

lemma get_current_user_Inr:
  "get_current_user d tok = Inr current_user \<Longrightarrow>
     tok = Payload (Some (u_id current_user))
     \<and> find_one (\<lambda>u. u_id u = u_id current_user) (users d) = Some current_user"
proof -
  assume a: "get_current_user d tok = Inr current_user"
  then obtain x where tok: "tok = Payload x"
    and f: "find_one (\<lambda>u. Some (u_id u) = x) (users d) = Some current_user"
    by (auto simp: get_current_user_def split: jwt_result.splits option.splits)
  from find_one_Some_P [OF f] have x: "x = Some (u_id current_user)" by simp
  from f x have "find_one (\<lambda>u. u_id u = u_id current_user) (users d) = Some current_user"
    by simp
  with tok x show ?thesis by simp
qed

lemma create_order_Inr:
  assumes "create_order d order_data current_user new_id now = (d', Inr ord)"
  shows "\<exists>service. find_one (\<lambda>s. s_id s = oc_service_id order_data) (services d) = Some service
     \<and> s_min_quantity service \<le> oc_quantity order_data
     \<and> oc_quantity order_data \<le> s_max_quantity service
     \<and> total_cost_of (oc_quantity order_data) (s_rate service) \<le> u_balance current_user
     \<and> ord = new_order current_user order_data
               (total_cost_of (oc_quantity order_data) (s_rate service)) new_id now
     \<and> d' = d\<lparr>users := inc_balance (u_id current_user)
                     (- total_cost_of (oc_quantity order_data) (s_rate service)) (users d),
              orders := insert_one ord (orders d)\<rparr>"
  using assms
  by (auto simp: create_order_def Let_def split: option.splits if_splits)

lemma create_order_Inl:
  "create_order d order_data current_user new_id now = (d', Inl e) \<Longrightarrow> d' = d"
  by (auto simp: create_order_def Let_def split: option.splits if_splits)

lemma stored_balance_users_inc:
  "users d' = inc_balance uid a (users d) \<Longrightarrow>
   stored_balance d' uid' =
     (if uid' = uid then map_option (\<lambda>b. b + a) (stored_balance d uid') else stored_balance d uid')"
  using stored_balance_inc [where d = d and uid = uid and a = a and uid' = uid'] by (simp add: stored_balance_def)

lemma stored_balance_users_same:
  "users d' = users d \<Longrightarrow> stored_balance d' uid = stored_balance d uid"
  by (simp add: stored_balance_def)

lemma handle_PlaceOrder_Inr:
  assumes "handle d (PlaceOrder tok order_data new_id now) = (d', Inr resp)"
  shows "\<exists>current_user ord. get_current_user d tok = Inr current_user
     \<and> create_order d order_data current_user new_id now = (d', Inr ord)
     \<and> resp = OrderResponse ord"
  using assms
  by (cases "get_current_user d tok"; cases "create_order d order_data (projr (get_current_user d tok)) new_id now")
     (auto simp: lift_response_def map_sum_def split: sum.splits)

lemma example_stored_balance:
  "stored_balance (example_db b) ''alice'' = Some b"
  by (simp add: stored_balance_def example_db_def example_user_def find_one_def)

lemma example_place_order:
  "handle (example_db (5 / 4)) (PlaceOrder alice (example_order_data 500) ''o1'' ''2024-02-01'')
     = ((example_db (5 / 4))
          \<lparr>users := [example_user ''alice'' 0, example_user ''bob'' 10, example_admin],
           orders := [new_order (example_user ''alice'' (5 / 4)) (example_order_data 500) (5 / 4)
                        ''o1'' ''2024-02-01'']\<rparr>,
        Inr (OrderResponse (new_order (example_user ''alice'' (5 / 4)) (example_order_data 500) (5 / 4)
                        ''o1'' ''2024-02-01'')))"
  by (simp add: example_current_user lift_response_def create_order_def example_find_service
      total_cost_of_def Let_def)
     (simp add: example_order_data_def example_service_def example_user_def insert_one_def
      example_db_def inc_balance_def update_one_def find_one_def)

lemma update_one_fst: "fst (update_one P f xs) = update_first P f xs"
  by (simp add: update_one_def update_first_no_match split: option.splits)

lemma approve_deposit_pending:
  assumes "find_one (\<lambda>t. t_id t = transaction_id) (transactions d) = Some transaction"
    and "t_status transaction = ''pending''"
    and "action = ''approve'' \<or> action = ''reject''"
  shows "approve_deposit d transaction_id action =
     (d\<lparr>transactions := update_first (\<lambda>t. t_id t = transaction_id)
            (\<lambda>t. t\<lparr>t_status := (if action = ''approve'' then ''approved'' else ''rejected'')\<rparr>)
            (transactions d),
        users := (if action = ''approve''
                  then inc_balance (t_user_id transaction) (t_amount transaction) (users d)
                  else users d)\<rparr>,
      Inr (''Deposit '' @ (if action = ''approve'' then ''approved'' else ''rejected'')))"
  using assms by (auto simp: approve_deposit_def update_one_fst Let_def)

lemma approve_deposit_processed:
  assumes "find_one (\<lambda>t. t_id t = transaction_id) (transactions d) = Some transaction"
    and "t_status transaction \<noteq> ''pending''"
    and "action = ''approve'' \<or> action = ''reject''"
  shows "approve_deposit d transaction_id action = (d, Inl AlreadyProcessed)"
  using assms by (auto simp: approve_deposit_def)

lemma length_update_first: "length (update_first P f xs) = length xs"
  by (induction xs) auto

lemma update_first_nth:
  "i < length xs \<Longrightarrow>
   update_first P f xs ! i =
     (if P (xs ! i) \<and> (\<forall>j<i. \<not> P (xs ! j)) then f (xs ! i) else xs ! i)"
proof (induction xs arbitrary: i)
  case Nil
  then show ?case by simp
next
  case (Cons x xs)
  show ?case
  proof (cases i)
    case 0
    then show ?thesis by simp
  next
    case (Suc k)
    with Cons.prems have k: "k < length xs" by simp
    have shift: "(\<forall>j<Suc k. \<not> P ((x # xs) ! j)) = (\<not> P x \<and> (\<forall>j<k. \<not> P (xs ! j)))"
      by (simp add: All_less_Suc2)
    show ?thesis
      unfolding Suc shift using Cons.IH [OF k] by auto
  qed
qed

lemma update_order_status_result:
  "update_order_status d order_id status now =
     (if status \<notin> set [''pending'', ''processing'', ''completed'', ''cancelled'']
      then (d, Inl InvalidStatus)
      else (d\<lparr>orders := update_first (\<lambda>ord. o_id ord = order_id) (set_status status now) (orders d)\<rparr>,
            case find_one (\<lambda>ord. o_id ord = order_id) (orders d) of
              None \<Rightarrow> Inl OrderNotFound
            | Some ord \<Rightarrow> if set_status status now ord = ord then Inl OrderNotFound
                          else Inr ''Order status updated''))"
  by (auto simp: update_order_status_def update_one_def update_first_no_match Let_def
      split: option.splits)

lemma find_sorted_desc_subset:
  "set (find_sorted_desc P key xs) \<subseteq> {x \<in> set xs. P x}"
proof -
  have "set (find_sorted_desc P key xs) \<subseteq> set (rev (sort_key key (filter P xs)))"
    unfolding find_sorted_desc_def by (rule set_take_subset)
  then show ?thesis by auto
qed

lemma find_one_None_iff: "find_one P xs = None \<longleftrightarrow> (\<forall>x \<in> set xs. \<not> P x)"
  by (auto simp: find_one_def find_None_iff)

lemma get_order_result:
  "get_order d order_id current_user = Inr ord \<Longrightarrow>
     o_id ord = order_id \<and> o_user_id ord = u_id current_user \<and> ord \<in> set (orders d)"
  by (auto simp: get_order_def split: option.splits dest: find_one_Some_P)

lemma example_find_deposit:
  "find_one (\<lambda>t. t_id t = ''t1'') (transactions example_shop) = Some example_deposit"
  by (simp add: example_shop_def example_deposit_def find_one_def)

lemma example_shop_balance:
  "stored_balance example_shop ''alice'' = Some 0"
  by (simp add: example_shop_def stored_balance_def example_db_def example_user_def find_one_def)

lemma example_cancel:
  "update_order_status example_shop ''o2'' ''cancelled'' ''2024-01-09'' =
     (example_shop\<lparr>orders := [example_order ''o1'' ''alice'' ''pending'' ''2024-01-02'' None,
         example_order ''o2'' ''bob'' ''cancelled'' ''2024-01-03'' (Some ''2024-01-05'')]\<rparr>,
      Inr ''Order status updated'')"
  by (simp add: update_order_status_result)
     (simp add: example_shop_def example_order_def find_one_def set_status_def)

subsection \<open>The ledger along a serial run\<close>

lemma handle_PlaceOrder_cases:
  obtains (unauthenticated) e where "get_current_user d tok = Inl e"
      and "handle d (PlaceOrder tok order_data new_id now) = (d, Inl e)"
  | (refused) current_user e where "get_current_user d tok = Inr current_user"
      and "create_order d order_data current_user new_id now = (d, Inl e)"
      and "handle d (PlaceOrder tok order_data new_id now) = (d, Inl e)"
  | (placed) current_user d' ord where "get_current_user d tok = Inr current_user"
      and "create_order d order_data current_user new_id now = (d', Inr ord)"
      and "handle d (PlaceOrder tok order_data new_id now) = (d', Inr (OrderResponse ord))"
proof (cases "get_current_user d tok")
  case (Inl e)
  then show ?thesis by (intro unauthenticated [of e]) simp_all
next
  case (Inr current_user)
  obtain d' out where co: "create_order d order_data current_user new_id now = (d', out)"
    by (cases "create_order d order_data current_user new_id now")
  show ?thesis
  proof (cases out)
    case (Inl e)
    with co create_order_Inl [of d order_data current_user new_id now d' e]
    have "create_order d order_data current_user new_id now = (d, Inl e)" by simp
    with Inr show ?thesis
      by (intro refused [of current_user e]) (simp_all add: lift_response_def)
  next
    case ord: (Inr ord)
    with co Inr show ?thesis
      by (intro placed [of current_user d' ord]) (simp_all add: lift_response_def)
  qed
qed

lemma handle_PlaceOrder_ledger:
  assumes "stored_balance d uid = Some b"
  shows "stored_balance (fst (handle d (PlaceOrder tok order_data new_id now))) uid
     = Some (b + credit uid d (PlaceOrder tok order_data new_id now)
               - debit uid d (PlaceOrder tok order_data new_id now))"
proof (cases rule: handle_PlaceOrder_cases [of d tok order_data new_id now])
  case (unauthenticated e)
  with assms show ?thesis by (auto simp add: credit_def debit_def simp del: handle.simps)
next
  case (refused current_user e)
  with assms show ?thesis by (auto simp add: credit_def debit_def simp del: handle.simps)
next
  case (placed current_user d' ord)
  from create_order_Inr [OF placed(2)] obtain service :: Service
    where ord: "ord = new_order current_user order_data
                  (total_cost_of (oc_quantity order_data) (s_rate service)) new_id now"
      and d': "d' = d\<lparr>users := inc_balance (u_id current_user)
                     (- total_cost_of (oc_quantity order_data) (s_rate service)) (users d),
              orders := insert_one ord (orders d)\<rparr>"
    by (elim exE conjE)
  have owner: "o_user_id ord = u_id current_user"
    and us: "users d' = inc_balance (u_id current_user) (- o_total_cost ord) (users d)"
    by (simp_all add: ord d' new_order_def)
  from stored_balance_users_inc [OF us, of uid] assms placed(3) owner
  show ?thesis by (auto simp add: credit_def debit_def simp del: handle.simps)
qed

lemma handle_ResolveDeposit_cases:
  obtains (failed) e where "handle d (ResolveDeposit tok transaction_id action) = (d, Inl e)"
  | (resolved) transaction where
      "find_one (\<lambda>t. t_id t = transaction_id) (transactions d) = Some transaction"
      and "t_status transaction = ''pending''"
      and "action = ''approve'' \<or> action = ''reject''"
      and "handle d (ResolveDeposit tok transaction_id action) =
             lift_response MessageResponse (approve_deposit d transaction_id action)"
proof (cases "get_admin_user d tok")
  case (Inl e)
  then show ?thesis by (intro failed [of e]) simp
next
  case (Inr admin)
  then have h: "handle d (ResolveDeposit tok transaction_id action) =
             lift_response MessageResponse (approve_deposit d transaction_id action)"
    by simp
  show ?thesis
  proof (cases "action = ''approve'' \<or> action = ''reject''")
    case False
    then have "approve_deposit d transaction_id action = (d, Inl InvalidAction)"
      by (auto simp: approve_deposit_def)
    with h show ?thesis by (intro failed [of InvalidAction]) (simp add: lift_response_def)
  next
    case action: True
    show ?thesis
    proof (cases "find_one (\<lambda>t. t_id t = transaction_id) (transactions d)")
      case None
      with action have "approve_deposit d transaction_id action = (d, Inl TransactionNotFound)"
        by (auto simp: approve_deposit_def)
      with h show ?thesis
        by (intro failed [of TransactionNotFound]) (simp add: lift_response_def)
    next
      case (Some transaction)
      show ?thesis
      proof (cases "t_status transaction = ''pending''")
        case True
        with Some action h show ?thesis by (intro resolved [of transaction])
      next
        case False
        from approve_deposit_processed [OF Some False action] h show ?thesis
          by (intro failed [of AlreadyProcessed]) (simp add: lift_response_def)
      qed
    qed
  qed
qed

lemma handle_ResolveDeposit_ledger:
  assumes "stored_balance d uid = Some b"
  shows "stored_balance (fst (handle d (ResolveDeposit tok transaction_id action))) uid
     = Some (b + credit uid d (ResolveDeposit tok transaction_id action)
               - debit uid d (ResolveDeposit tok transaction_id action))"
proof (cases rule: handle_ResolveDeposit_cases [of d tok transaction_id action])
  case (failed e)
  with assms show ?thesis by (auto simp add: credit_def debit_def simp del: handle.simps)
next
  case (resolved transaction)
  note ap = approve_deposit_pending [OF resolved(1,2,3)]
  show ?thesis
  proof (cases "action = ''approve''")
    case True
    with ap have us: "users (fst (approve_deposit d transaction_id action))
        = inc_balance (t_user_id transaction) (t_amount transaction) (users d)"
      and out: "snd (approve_deposit d transaction_id action) = Inr ''Deposit approved''"
      by simp_all
    from stored_balance_users_inc [OF us, of uid] assms resolved(1,4) True out
    show ?thesis by (auto simp add: credit_def debit_def lift_response_def simp del: handle.simps)
  next
    case False
    with ap have us: "users (fst (approve_deposit d transaction_id action)) = users d"
      and out: "snd (approve_deposit d transaction_id action) = Inr ''Deposit rejected''"
      by simp_all
    from stored_balance_users_same [OF us, of uid] assms resolved(4) False out
    show ?thesis by (auto simp add: credit_def debit_def lift_response_def simp del: handle.simps)
  qed
qed

lemma handle_other_users:
  shows "users (fst (handle d (ListOrders tok))) = users d"
    and "users (fst (handle d (GetOrder tok order_id))) = users d"
    and "users (fst (handle d (GetBalance tok))) = users d"
    and "users (fst (handle d (RequestDeposit tok amount new_id now))) = users d"
    and "users (fst (handle d (SetOrderStatus tok order_id status now))) = users d"
  by (simp_all add: lift_response_def request_deposit_def update_order_status_result Let_def
      split: sum.splits)

lemma handle_ledger:
  assumes "stored_balance d uid = Some b"
  shows "stored_balance (fst (handle d r)) uid = Some (b + credit uid d r - debit uid d r)"
proof (cases r)
  case (PlaceOrder tok order_data new_id now)
  show ?thesis
    unfolding PlaceOrder by (rule handle_PlaceOrder_ledger [OF assms])
next
  case (ResolveDeposit tok transaction_id action)
  show ?thesis
    unfolding ResolveDeposit by (rule handle_ResolveDeposit_ledger [OF assms])
next
  case (ListOrders tok)
  show ?thesis
    unfolding ListOrders stored_balance_users_same [OF handle_other_users(1)]
    by (simp add: assms credit_def debit_def)
next
  case (GetOrder tok order_id)
  show ?thesis
    unfolding GetOrder stored_balance_users_same [OF handle_other_users(2)]
    by (simp add: assms credit_def debit_def)
next
  case (GetBalance tok)
  show ?thesis
    unfolding GetBalance stored_balance_users_same [OF handle_other_users(3)]
    by (simp add: assms credit_def debit_def)
next
  case (RequestDeposit tok amount new_id now)
  show ?thesis
    unfolding RequestDeposit stored_balance_users_same [OF handle_other_users(4)]
    by (simp add: assms credit_def debit_def)
next
  case (SetOrderStatus tok order_id status now)
  show ?thesis
    unfolding SetOrderStatus stored_balance_users_same [OF handle_other_users(5)]
    by (simp add: assms credit_def debit_def)
qed

lemma serve_Cons_fst: "fst (serve d (r # rs)) = fst (serve (fst (handle d r)) rs)"
  by (simp add: split_def Let_def)

lemma serve_ledger:
  assumes "stored_balance d uid = Some b"
  shows "stored_balance (fst (serve d requests)) uid
     = Some (b + credits uid d requests - debits uid d requests)"
  using assms
proof (induction requests arbitrary: d b)
  case Nil
  then show ?case by simp
next
  case (Cons r rs)
  from handle_ledger [OF Cons.prems]
  have "stored_balance (fst (handle d r)) uid = Some (b + credit uid d r - debit uid d r)" .
  from Cons.IH [OF this] show ?case
    by (simp only: serve_Cons_fst credits.simps debits.simps) (simp add: algebra_simps)
qed


lemma handle_failed_users:
  assumes "snd (handle d r) = Inl e"
  shows "users (fst (handle d r)) = users d"
proof (cases r)
  case (PlaceOrder tok order_data new_id now)
  show ?thesis
    using assms unfolding PlaceOrder
    by (cases rule: handle_PlaceOrder_cases [of d tok order_data new_id now])
       (simp_all del: handle.simps)
next
  case (ResolveDeposit tok transaction_id action)
  show ?thesis
  proof (cases rule: handle_ResolveDeposit_cases [of d tok transaction_id action])
    case (failed e')
    then show ?thesis by (simp add: ResolveDeposit del: handle.simps)
  next
    case (resolved transaction)
    from approve_deposit_pending [OF resolved(1,2,3)] resolved(4) assms
    show ?thesis by (simp add: ResolveDeposit lift_response_def del: handle.simps)
  qed
qed (simp_all only: handle_other_users)

lemma handle_reject_users:
  "users (fst (handle d (ResolveDeposit tok transaction_id ''reject''))) = users d"
proof (cases rule: handle_ResolveDeposit_cases [of d tok transaction_id "''reject''"])
  case (failed e)
  then show ?thesis by (simp del: handle.simps)
next
  case (resolved transaction)
  from approve_deposit_pending [OF resolved(1,2,3)] resolved(4)
  show ?thesis by (simp add: lift_response_def del: handle.simps)
qed

lemma failed_contributes_nothing:
  "snd (handle d r) = Inl e \<Longrightarrow> credit uid d r = 0 \<and> debit uid d r = 0"
  by (cases r) (simp_all add: credit_def debit_def del: handle.simps)

lemma reject_contributes_nothing:
  "credit uid d (ResolveDeposit tok transaction_id ''reject'') = 0
   \<and> debit uid d (ResolveDeposit tok transaction_id ''reject'') = 0"
  by (simp add: credit_def debit_def split: sum.splits del: handle.simps)

lemma example_run:
  "credits ''alice'' example_shop example_requests = 20
   \<and> debits ''alice'' example_shop example_requests = 5 / 2
   \<and> snd (handle example_shop (PlaceOrder alice (example_order_data 1000) ''o3'' ''2024-02-01''))
       = Inl InsufficientBalance"
  by code_simp

subsection \<open>A task run alone is the serial request\<close>

lemma run_alone_serial:
  "\<exists>r. run_alone d (AwaitUser tok order_data new_id now)
          = (fst (handle d (PlaceOrder tok order_data new_id now)), Finished r)
      \<and> snd (handle d (PlaceOrder tok order_data new_id now)) = map_sum id OrderResponse r"
  by (auto simp: run_alone_def create_order_def lift_response_def Let_def new_order_def
      split: sum.splits option.splits)

section \<open>Order placement: rejected requests\<close>

text \<open>
  Claim C3. When the service exists and the quantity is within its bounds, a caller whose
  balance is strictly below the computed total cost gets \<open>InsufficientBalance\<close>, and the
  database (every balance, every stored order) is exactly as before the call.
\<close>

theorem create_order_insufficient_balance:
  assumes "find_one (\<lambda>s. s_id s = oc_service_id order_data) (services d) = Some service"
    and "s_min_quantity service \<le> oc_quantity order_data"
    and "oc_quantity order_data \<le> s_max_quantity service"
    and "u_balance current_user < total_cost_of (oc_quantity order_data) (s_rate service)"
  shows "create_order d order_data current_user new_id now = (d, Inl InsufficientBalance)
    \<and> (get_current_user d tok = Inr current_user \<longrightarrow>
         handle d (PlaceOrder tok order_data new_id now) = (d, Inl InsufficientBalance))"
  using assms by (simp add: create_order_def lift_response_def)

theorem create_order_insufficient_balance_witness:
  "create_order (example_db 1) (example_order_data 500) (example_user ''alice'' 1) ''o1'' ''2024-02-01''
      = (example_db 1, Inl InsufficientBalance)
   \<and> handle (example_db 1) (PlaceOrder alice (example_order_data 500) ''o1'' ''2024-02-01'')
      = (example_db 1, Inl InsufficientBalance)"
proof -
  have lo: "s_min_quantity example_service \<le> oc_quantity (example_order_data 500)"
    and hi: "oc_quantity (example_order_data 500) \<le> s_max_quantity example_service"
    and short: "u_balance (example_user ''alice'' 1)
        < total_cost_of (oc_quantity (example_order_data 500)) (s_rate example_service)"
    by (simp_all add: example_service_def example_order_data_def example_user_def total_cost_of_def)
  from create_order_insufficient_balance [OF example_find_service lo hi short, of 1 "''o1''" "''2024-02-01''" alice]
  show ?thesis
    by (simp add: example_current_user lift_response_def)
qed

text \<open>
  Claim C4. When the service exists and the quantity is below its minimum or above its
  maximum, the call fails with \<open>QuantityOutOfRange\<close> and the database (every balance,
  every stored order) is exactly as before the call.
\<close>

theorem create_order_quantity_out_of_range:
  assumes "find_one (\<lambda>s. s_id s = oc_service_id order_data) (services d) = Some service"
    and "oc_quantity order_data < s_min_quantity service
         \<or> oc_quantity order_data > s_max_quantity service"
  shows "create_order d order_data current_user new_id now =
           (d, Inl (QuantityOutOfRange (s_min_quantity service) (s_max_quantity service)))
    \<and> (get_current_user d tok = Inr current_user \<longrightarrow>
         handle d (PlaceOrder tok order_data new_id now) =
           (d, Inl (QuantityOutOfRange (s_min_quantity service) (s_max_quantity service))))"
  using assms by (auto simp add: create_order_def lift_response_def)

theorem create_order_quantity_out_of_range_witness:
  "handle (example_db 100) (PlaceOrder alice (example_order_data 99) ''o1'' ''2024-02-01'')
      = (example_db 100, Inl (QuantityOutOfRange 100 10000))
   \<and> handle (example_db 100) (PlaceOrder alice (example_order_data 10001) ''o1'' ''2024-02-01'')
      = (example_db 100, Inl (QuantityOutOfRange 100 10000))"
proof -
  have below: "oc_quantity (example_order_data 99) < s_min_quantity example_service
      \<or> oc_quantity (example_order_data 99) > s_max_quantity example_service"
    and above: "oc_quantity (example_order_data 10001) < s_min_quantity example_service
      \<or> oc_quantity (example_order_data 10001) > s_max_quantity example_service"
    by (simp_all add: example_service_def example_order_data_def)
  from create_order_quantity_out_of_range [OF example_find_service below,
        of 100 "example_user ''alice'' 100" "''o1''" "''2024-02-01''" alice]
     create_order_quantity_out_of_range [OF example_find_service above,
        of 100 "example_user ''alice'' 100" "''o1''" "''2024-02-01''" alice]
  show ?thesis
    by (simp add: example_current_user example_service_def lift_response_def)
qed


section \<open>Order placement: cost and debit\<close>

text \<open>
  Claim C5. The cost of an order is \<open>(quantity / 1000) * rate\<close> with the exact quotient.
  For a service with rate 2.50 and bounds 100 and 10000, an order of 500 units costs
  exactly 1.25; a caller with balance 1.00 gets \<open>InsufficientBalance\<close>; a caller with
  balance 1.25 gets the order, and the stored balance becomes 0.
\<close>

theorem create_order_total_cost:
  assumes "find_one (\<lambda>s. s_id s = oc_service_id order_data) (services d) = Some service"
  shows "(\<forall>d' ord. create_order d order_data current_user new_id now = (d', Inr ord) \<longrightarrow>
            o_total_cost ord = (of_int (oc_quantity order_data) / 1000) * s_rate service)
    \<and> (s_rate service = 5 / 2 \<and> s_min_quantity service = 100 \<and> s_max_quantity service = 10000
         \<and> oc_quantity order_data = 500 \<longrightarrow>
        (of_int (oc_quantity order_data) / 1000) * s_rate service = 5 / 4
        \<and> (u_balance current_user = 1 \<longrightarrow>
             create_order d order_data current_user new_id now = (d, Inl InsufficientBalance))
        \<and> (u_balance current_user = 5 / 4 \<longrightarrow>
             snd (create_order d order_data current_user new_id now)
               = Inr (new_order current_user order_data (5 / 4) new_id now)
             \<and> (stored_balance d (u_id current_user) = Some (5 / 4) \<longrightarrow>
                  stored_balance (fst (create_order d order_data current_user new_id now))
                    (u_id current_user) = Some 0)))"
proof (intro conjI allI impI)
  fix d' ord
  assume "create_order d order_data current_user new_id now = (d', Inr ord)"
  from create_order_Inr [OF this] assms
  show "o_total_cost ord = (of_int (oc_quantity order_data) / 1000) * s_rate service"
    by (auto simp: new_order_def total_cost_of_def)
next
  assume ex: "s_rate service = 5 / 2 \<and> s_min_quantity service = 100
      \<and> s_max_quantity service = 10000 \<and> oc_quantity order_data = 500"
  then have r: "s_rate service = 5 / 2" and lo: "s_min_quantity service = 100"
    and hi: "s_max_quantity service = 10000" and q: "oc_quantity order_data = 500"
    by blast+
  have tc: "total_cost_of 500 (5 / 2) = 5 / 4"
    by (simp add: total_cost_of_def)
  show "(of_int (oc_quantity order_data) / 1000) * s_rate service = 5 / 4"
    by (simp add: r q)
  {
    assume b: "u_balance current_user = 1"
    show "create_order d order_data current_user new_id now = (d, Inl InsufficientBalance)"
      by (simp add: create_order_def assms r lo hi q b tc)
  }
  {
    assume b: "u_balance current_user = 5 / 4"
    have co: "create_order d order_data current_user new_id now =
        (d\<lparr>users := inc_balance (u_id current_user) (- (5 / 4)) (users d),
           orders := insert_one (new_order current_user order_data (5 / 4) new_id now) (orders d)\<rparr>,
         Inr (new_order current_user order_data (5 / 4) new_id now))"
      by (simp add: create_order_def assms r lo hi q b tc Let_def)
    then show "snd (create_order d order_data current_user new_id now)
        = Inr (new_order current_user order_data (5 / 4) new_id now)"
      by simp
    assume sb: "stored_balance d (u_id current_user) = Some (5 / 4)"
    have "users (fst (create_order d order_data current_user new_id now))
        = inc_balance (u_id current_user) (- (5 / 4)) (users d)"
      by (simp add: co)
    from stored_balance_users_inc [OF this, of "u_id current_user"]
    show "stored_balance (fst (create_order d order_data current_user new_id now))
        (u_id current_user) = Some 0"
      by (simp add: sb)
  }
qed

theorem create_order_total_cost_witness:
  "create_order (example_db 1) (example_order_data 500) (example_user ''alice'' 1) ''o1'' ''2024-02-01''
      = (example_db 1, Inl InsufficientBalance)
   \<and> snd (create_order (example_db (5 / 4)) (example_order_data 500)
             (example_user ''alice'' (5 / 4)) ''o1'' ''2024-02-01'')
      = Inr (new_order (example_user ''alice'' (5 / 4)) (example_order_data 500) (5 / 4)
               ''o1'' ''2024-02-01'')
   \<and> stored_balance (fst (create_order (example_db (5 / 4)) (example_order_data 500)
             (example_user ''alice'' (5 / 4)) ''o1'' ''2024-02-01'')) ''alice'' = Some 0"
proof -
  have ex: "s_rate example_service = 5 / 2 \<and> s_min_quantity example_service = 100
      \<and> s_max_quantity example_service = 10000 \<and> oc_quantity (example_order_data 500) = 500"
    by (simp add: example_service_def example_order_data_def)
  have poor: "u_balance (example_user ''alice'' 1) = 1"
    and rich: "u_balance (example_user ''alice'' (5 / 4)) = 5 / 4"
    and uid: "u_id (example_user ''alice'' (5 / 4)) = ''alice''"
    by (simp_all add: example_user_def)
  from create_order_total_cost [OF example_find_service [of 500 1],
      where current_user = "example_user ''alice'' 1" and new_id = "''o1''"
      and now = "''2024-02-01''"]
    create_order_total_cost [OF example_find_service [of 500 "5 / 4"],
      where current_user = "example_user ''alice'' (5 / 4)" and new_id = "''o1''"
      and now = "''2024-02-01''"]
    ex poor rich
  show ?thesis
    by (simp add: uid example_stored_balance)
qed

text \<open>
  In exact arithmetic: when requests are served one at a time, a successful order placement debits
  the caller by the order's cost, which is at most the stored balance; hence every user
  whose stored balance was non-negative before the placement has a non-negative stored
  balance after it.
\<close>

theorem place_order_balance_nonnegative:
  assumes "handle d (PlaceOrder tok order_data new_id now) = (d', Inr resp)"
  shows "(\<exists>ord b. resp = OrderResponse ord
            \<and> tok = Payload (Some (o_user_id ord))
            \<and> stored_balance d (o_user_id ord) = Some b
            \<and> o_total_cost ord \<le> b
            \<and> stored_balance d' (o_user_id ord) = Some (b - o_total_cost ord))
       \<and> (\<forall>uid b. stored_balance d uid = Some b \<and> 0 \<le> b \<longrightarrow>
            (\<exists>b'. stored_balance d' uid = Some b' \<and> 0 \<le> b'))"
proof -
  from handle_PlaceOrder_Inr [OF assms] obtain current_user ord
    where cu: "get_current_user d tok = Inr current_user"
      and co: "create_order d order_data current_user new_id now = (d', Inr ord)"
      and resp: "resp = OrderResponse ord"
    by blast
  from get_current_user_Inr [OF cu]
  have tok: "tok = Payload (Some (u_id current_user))"
    and stored: "stored_balance d (u_id current_user) = Some (u_balance current_user)"
    by (simp_all add: stored_balance_def)
  from create_order_Inr [OF co] obtain service :: Service
    where le: "total_cost_of (oc_quantity order_data) (s_rate service) \<le> u_balance current_user"
      and ord: "ord = new_order current_user order_data
                  (total_cost_of (oc_quantity order_data) (s_rate service)) new_id now"
      and d': "d' = d\<lparr>users := inc_balance (u_id current_user)
                     (- total_cost_of (oc_quantity order_data) (s_rate service)) (users d),
              orders := insert_one ord (orders d)\<rparr>"
    by (elim exE conjE)
  define c where "c = total_cost_of (oc_quantity order_data) (s_rate service)"
  have owner: "o_user_id ord = u_id current_user" and cost: "o_total_cost ord = c"
    by (simp_all add: ord new_order_def c_def)
  have us: "users d' = inc_balance (u_id current_user) (- c) (users d)"
    by (simp add: d' c_def)
  note sb = stored_balance_users_inc [OF us]
  have first: "\<exists>ord b. resp = OrderResponse ord
            \<and> tok = Payload (Some (o_user_id ord))
            \<and> stored_balance d (o_user_id ord) = Some b
            \<and> o_total_cost ord \<le> b
            \<and> stored_balance d' (o_user_id ord) = Some (b - o_total_cost ord)"
    using resp tok stored le by (simp add: owner cost sb c_def)
  have second: "\<exists>b'. stored_balance d' uid = Some b' \<and> 0 \<le> b'"
    if "stored_balance d uid = Some b \<and> 0 \<le> b" for uid b
  proof (cases "uid = u_id current_user")
    case True
    with that stored have "b = u_balance current_user" by simp
    with True stored le show ?thesis by (simp add: sb c_def)
  next
    case False
    with that show ?thesis by (simp add: sb)
  qed
  from first second show ?thesis by blast
qed

theorem place_order_balance_nonnegative_witness:
  "stored_balance (example_db (5 / 4)) ''alice'' = Some (5 / 4) \<and> (0::rat) \<le> 5 / 4
   \<and> (\<exists>b'. stored_balance
              (fst (handle (example_db (5 / 4))
                     (PlaceOrder alice (example_order_data 500) ''o1'' ''2024-02-01''))) ''alice''
             = Some b' \<and> 0 \<le> b')"
proof -
  have pre: "stored_balance (example_db (5 / 4)) ''alice'' = Some (5 / 4) \<and> (0::rat) \<le> 5 / 4"
    by (simp add: example_stored_balance)
  from place_order_balance_nonnegative [OF example_place_order] pre
  have "\<exists>b'. stored_balance
      ((example_db (5 / 4))
          \<lparr>users := [example_user ''alice'' 0, example_user ''bob'' 10, example_admin],
           orders := [new_order (example_user ''alice'' (5 / 4)) (example_order_data 500) (5 / 4)
                        ''o1'' ''2024-02-01'']\<rparr>) ''alice'' = Some b' \<and> 0 \<le> b'"
    by blast
  with pre show ?thesis
    by (simp only: example_place_order fst_conv)
qed


section \<open>Deposit resolution\<close>

text \<open>
  Claim C6. A deposit is resolved exactly once. On a pending transaction, \<open>approve\<close> sets
  the status to \<open>approved\<close> and adds the recorded amount to the stored balance of the
  owning user (and to no other); \<open>reject\<close> sets the status to \<open>rejected\<close> and leaves
  every user as before. On a transaction that is not pending the call fails with
  \<open>AlreadyProcessed\<close> and changes nothing; in particular a second call after a
  successful one fails so, whichever action it names.
\<close>

theorem approve_deposit_resolves_once:
  assumes "find_one (\<lambda>t. t_id t = transaction_id) (transactions d) = Some transaction"
  shows "(t_status transaction = ''pending'' \<longrightarrow>
           (let (d1, r) = approve_deposit d transaction_id ''approve'' in
              r = Inr ''Deposit approved''
              \<and> find_one (\<lambda>t. t_id t = transaction_id) (transactions d1)
                  = Some (transaction\<lparr>t_status := ''approved''\<rparr>)
              \<and> (\<forall>uid. stored_balance d1 uid =
                    (if uid = t_user_id transaction
                     then map_option (\<lambda>b. b + t_amount transaction) (stored_balance d uid)
                     else stored_balance d uid))
              \<and> (\<forall>action \<in> set [''approve'', ''reject''].
                    approve_deposit d1 transaction_id action = (d1, Inl AlreadyProcessed)))
         \<and> (let (d1, r) = approve_deposit d transaction_id ''reject'' in
              r = Inr ''Deposit rejected''
              \<and> find_one (\<lambda>t. t_id t = transaction_id) (transactions d1)
                  = Some (transaction\<lparr>t_status := ''rejected''\<rparr>)
              \<and> users d1 = users d
              \<and> (\<forall>action \<in> set [''approve'', ''reject''].
                    approve_deposit d1 transaction_id action = (d1, Inl AlreadyProcessed))))
     \<and> (t_status transaction \<noteq> ''pending'' \<longrightarrow>
           (\<forall>action \<in> set [''approve'', ''reject''].
              approve_deposit d transaction_id action = (d, Inl AlreadyProcessed)))"
proof (intro conjI impI)
  assume pending: "t_status transaction = ''pending''"
  define d1 where "d1 = fst (approve_deposit d transaction_id ''approve'')"
  define d2 where "d2 = fst (approve_deposit d transaction_id ''reject'')"
  note app = approve_deposit_pending [OF assms pending, of "''approve''"]
  note rej = approve_deposit_pending [OF assms pending, of "''reject''"]
  have t1: "transactions d1 = update_first (\<lambda>t. t_id t = transaction_id)
              (\<lambda>t. t\<lparr>t_status := ''approved''\<rparr>) (transactions d)"
    and u1: "users d1 = inc_balance (t_user_id transaction) (t_amount transaction) (users d)"
    and r1: "approve_deposit d transaction_id ''approve'' = (d1, Inr ''Deposit approved'')"
    using app by (simp_all add: d1_def)
  have t2: "transactions d2 = update_first (\<lambda>t. t_id t = transaction_id)
              (\<lambda>t. t\<lparr>t_status := ''rejected''\<rparr>) (transactions d)"
    and u2: "users d2 = users d"
    and r2: "approve_deposit d transaction_id ''reject'' = (d2, Inr ''Deposit rejected'')"
    using rej by (simp_all add: d2_def)
  have f1: "find_one (\<lambda>t. t_id t = transaction_id) (transactions d1)
      = Some (transaction\<lparr>t_status := ''approved''\<rparr>)"
    by (simp add: t1 find_one_update_first_same assms)
  have f2: "find_one (\<lambda>t. t_id t = transaction_id) (transactions d2)
      = Some (transaction\<lparr>t_status := ''rejected''\<rparr>)"
    by (simp add: t2 find_one_update_first_same assms)
  have again1: "approve_deposit d1 transaction_id action = (d1, Inl AlreadyProcessed)"
    if "action \<in> set [''approve'', ''reject'']" for action
    using approve_deposit_processed [OF f1, of action] that by auto
  have again2: "approve_deposit d2 transaction_id action = (d2, Inl AlreadyProcessed)"
    if "action \<in> set [''approve'', ''reject'']" for action
    using approve_deposit_processed [OF f2, of action] that by auto
  show "let (d1, r) = approve_deposit d transaction_id ''approve'' in
              r = Inr ''Deposit approved''
              \<and> find_one (\<lambda>t. t_id t = transaction_id) (transactions d1)
                  = Some (transaction\<lparr>t_status := ''approved''\<rparr>)
              \<and> (\<forall>uid. stored_balance d1 uid =
                    (if uid = t_user_id transaction
                     then map_option (\<lambda>b. b + t_amount transaction) (stored_balance d uid)
                     else stored_balance d uid))
              \<and> (\<forall>action \<in> set [''approve'', ''reject''].
                    approve_deposit d1 transaction_id action = (d1, Inl AlreadyProcessed))"
    unfolding r1 Let_def prod.case
    using f1 again1 stored_balance_users_inc [OF u1] by blast
  show "let (d1, r) = approve_deposit d transaction_id ''reject'' in
              r = Inr ''Deposit rejected''
              \<and> find_one (\<lambda>t. t_id t = transaction_id) (transactions d1)
                  = Some (transaction\<lparr>t_status := ''rejected''\<rparr>)
              \<and> users d1 = users d
              \<and> (\<forall>action \<in> set [''approve'', ''reject''].
                    approve_deposit d1 transaction_id action = (d1, Inl AlreadyProcessed))"
    unfolding r2 Let_def prod.case
    using f2 again2 u2 by blast
next
  assume "t_status transaction \<noteq> ''pending''"
  from approve_deposit_processed [OF assms this]
  show "\<forall>action \<in> set [''approve'', ''reject''].
      approve_deposit d transaction_id action = (d, Inl AlreadyProcessed)"
    by auto
qed

theorem approve_deposit_resolves_once_witness:
  "t_status example_deposit = ''pending''
   \<and> stored_balance example_shop ''alice'' = Some 0
   \<and> snd (approve_deposit example_shop ''t1'' ''approve'') = Inr ''Deposit approved''
   \<and> stored_balance (fst (approve_deposit example_shop ''t1'' ''approve'')) ''alice'' = Some 20
   \<and> approve_deposit (fst (approve_deposit example_shop ''t1'' ''approve'')) ''t1'' ''approve''
       = (fst (approve_deposit example_shop ''t1'' ''approve''), Inl AlreadyProcessed)
   \<and> snd (approve_deposit example_shop ''t1'' ''reject'') = Inr ''Deposit rejected''
   \<and> users (fst (approve_deposit example_shop ''t1'' ''reject'')) = users example_shop"
proof -
  have pending: "t_status example_deposit = ''pending''"
    and owner: "t_user_id example_deposit = ''alice''"
    and amount: "t_amount example_deposit = 20"
    by (simp_all add: example_deposit_def)
  from approve_deposit_resolves_once [OF example_find_deposit] pending
  show ?thesis
    by (auto simp: owner amount example_shop_balance split: prod.splits)
qed

section \<open>Order status transitions\<close>

text \<open>
  Claim C9. A status transition changes nothing but the first stored order with the
  given identifier, and of that order only the status, and the completion time when
  the new status is \<open>completed\<close>. Users (hence balances: a cancellation refunds
  nothing), services, transactions and all other orders are unchanged, and a status
  other than \<open>completed\<close> keeps a completion time stamped before.
\<close>

theorem update_order_status_frame:
  assumes "update_order_status d order_id status now = (d', r)"
  shows "users d' = users d \<and> services d' = services d \<and> transactions d' = transactions d
    \<and> (\<forall>uid. stored_balance d' uid = stored_balance d uid)
    \<and> length (orders d') = length (orders d)
    \<and> (\<forall>i < length (orders d).
         orders d' ! i = orders d ! i
         \<or> (o_id (orders d ! i) = order_id \<and> (\<forall>j<i. o_id (orders d ! j) \<noteq> order_id)
            \<and> orders d' ! i =
                (orders d ! i)\<lparr>o_status := status,
                               o_completed_at := (if status = ''completed'' then Some now
                                                  else o_completed_at (orders d ! i))\<rparr>))"
proof (cases "status \<notin> set [''pending'', ''processing'', ''completed'', ''cancelled'']")
  case True
  with assms have "d' = d" by (simp add: update_order_status_result)
  then show ?thesis by simp
next
  case False
  with assms have d': "d' = d\<lparr>orders := update_first (\<lambda>ord. o_id ord = order_id)
      (set_status status now) (orders d)\<rparr>"
    by (auto simp: update_order_status_result split: if_splits)
  have "orders d' ! i = orders d ! i
         \<or> (o_id (orders d ! i) = order_id \<and> (\<forall>j<i. o_id (orders d ! j) \<noteq> order_id)
            \<and> orders d' ! i =
                (orders d ! i)\<lparr>o_status := status,
                               o_completed_at := (if status = ''completed'' then Some now
                                                  else o_completed_at (orders d ! i))\<rparr>)"
    if "i < length (orders d)" for i
    using update_first_nth [OF that, of "\<lambda>ord. o_id ord = order_id" "set_status status now"]
    by (auto simp: d' set_status_def)
  then show ?thesis
    by (simp add: d' stored_balance_def length_update_first)
qed

theorem update_order_status_frame_witness:
  "update_order_status example_shop ''o2'' ''cancelled'' ''2024-01-09'' =
     (example_shop\<lparr>orders := [example_order ''o1'' ''alice'' ''pending'' ''2024-01-02'' None,
         example_order ''o2'' ''bob'' ''cancelled'' ''2024-01-03'' (Some ''2024-01-05'')]\<rparr>,
      Inr ''Order status updated'')
   \<and> orders example_shop = [example_order ''o1'' ''alice'' ''pending'' ''2024-01-02'' None,
         example_order ''o2'' ''bob'' ''completed'' ''2024-01-03'' (Some ''2024-01-05'')]
   \<and> (\<forall>uid. stored_balance
          (example_shop\<lparr>orders := [example_order ''o1'' ''alice'' ''pending'' ''2024-01-02'' None,
             example_order ''o2'' ''bob'' ''cancelled'' ''2024-01-03'' (Some ''2024-01-05'')]\<rparr>) uid
        = stored_balance example_shop uid)"
proof -
  have os: "orders example_shop = [example_order ''o1'' ''alice'' ''pending'' ''2024-01-02'' None,
         example_order ''o2'' ''bob'' ''completed'' ''2024-01-03'' (Some ''2024-01-05'')]"
    by (simp add: example_shop_def)
  from update_order_status_frame [OF example_cancel] example_cancel os
  show ?thesis
    by blast
qed

text \<open>
  Claim C7 says that a transition to a legal status fails with \<open>OrderNotFound\<close> only
  when no stored order has the identifier. The handler tests \<^verbatim>\<open>modified_count\<close>, which
  is 0 also when the order exists and already holds the requested status: here order
  \<open>o1\<close> is stored with status \<open>pending\<close>, and setting it to \<open>pending\<close> is answered
  with \<open>OrderNotFound\<close>.
\<close>

theorem update_order_status_repeat_not_found:
  "find_one (\<lambda>ord. o_id ord = ''o1'') (orders example_shop)
      = Some (example_order ''o1'' ''alice'' ''pending'' ''2024-01-02'' None)
   \<and> update_order_status example_shop ''o1'' ''pending'' ''2024-01-09''
      = (example_shop, Inl OrderNotFound)"
  by (simp add: update_order_status_result)
     (simp add: example_shop_def example_order_def find_one_def set_status_def)

section \<open>Order queries\<close>

text \<open>
  Claim C8. For users \<open>a\<close> and \<open>b\<close> with different identifiers, the listing served to
  \<open>a\<close> holds only stored orders owned by \<open>a\<close>, never one owned by \<open>b\<close>; a lookup by
  \<open>a\<close> returns only an order with the requested identifier that \<open>a\<close> owns, and fails
  only with \<open>OrderNotFound\<close>, exactly when \<open>a\<close> owns no order with that identifier;
  so, order identifiers being unique, a lookup by \<open>a\<close> of the identifier of an order
  owned by \<open>b\<close> fails with \<open>OrderNotFound\<close>.
\<close>

theorem orders_isolated:
  assumes "u_id a \<noteq> u_id b"
  shows "(\<forall>ord \<in> set (get_user_orders d a).
            ord \<in> set (orders d) \<and> o_user_id ord = u_id a \<and> o_user_id ord \<noteq> u_id b)
    \<and> (\<forall>ord. get_order d order_id a = Inr ord \<longrightarrow>
            o_id ord = order_id \<and> o_user_id ord = u_id a \<and> o_user_id ord \<noteq> u_id b)
    \<and> (\<forall>e. get_order d order_id a = Inl e \<longrightarrow> e = OrderNotFound)
    \<and> (get_order d order_id a = Inl OrderNotFound \<longleftrightarrow>
         \<not> (\<exists>ord \<in> set (orders d). o_id ord = order_id \<and> o_user_id ord = u_id a))
    \<and> (\<forall>ord \<in> set (orders d).
          o_user_id ord = u_id b \<and> distinct (map o_id (orders d)) \<longrightarrow>
          get_order d (o_id ord) a = Inl OrderNotFound)"
proof (intro conjI ballI allI impI)
  fix ord
  assume "ord \<in> set (get_user_orders d a)"
  with find_sorted_desc_subset [of "\<lambda>ord. o_user_id ord = u_id a" o_created_at "orders d"]
  have "ord \<in> set (orders d) \<and> o_user_id ord = u_id a"
    by (auto simp: get_user_orders_def)
  with assms
  show "ord \<in> set (orders d)" and "o_user_id ord = u_id a" and "o_user_id ord \<noteq> u_id b"
    by simp_all
next
  fix ord
  assume "get_order d order_id a = Inr ord"
  from get_order_result [OF this] assms
  show "o_id ord = order_id" and "o_user_id ord = u_id a" and "o_user_id ord \<noteq> u_id b"
    by simp_all
next
  fix e
  assume "get_order d order_id a = Inl e"
  then show "e = OrderNotFound"
    by (auto simp: get_order_def split: option.splits)
next
  show "get_order d order_id a = Inl OrderNotFound \<longleftrightarrow>
         \<not> (\<exists>ord \<in> set (orders d). o_id ord = order_id \<and> o_user_id ord = u_id a)"
    using find_one_None_iff [of "\<lambda>ord. o_id ord = order_id \<and> o_user_id ord = u_id a" "orders d"]
    by (auto simp: get_order_def split: option.splits)
next
  fix ord
  assume mem: "ord \<in> set (orders d)"
    and own: "o_user_id ord = u_id b \<and> distinct (map o_id (orders d))"
  have "\<not> (o_id x = o_id ord \<and> o_user_id x = u_id a)" if "x \<in> set (orders d)" for x
  proof
    assume x: "o_id x = o_id ord \<and> o_user_id x = u_id a"
    from own have "inj_on o_id (set (orders d))"
      by (simp add: distinct_map)
    with that mem x have "x = ord"
      by (auto dest: inj_onD)
    with x own assms show False by simp
  qed
  then have "find_one (\<lambda>x. o_id x = o_id ord \<and> o_user_id x = u_id a) (orders d) = None"
    by (simp add: find_one_None_iff)
  then show "get_order d (o_id ord) a = Inl OrderNotFound"
    by (simp add: get_order_def)
qed

theorem orders_isolated_witness:
  "u_id (example_user ''alice'' 0) \<noteq> u_id (example_user ''bob'' 10)
   \<and> example_order ''o2'' ''bob'' ''completed'' ''2024-01-03'' (Some ''2024-01-05'')
       \<in> set (orders example_shop)
   \<and> distinct (map o_id (orders example_shop))
   \<and> get_order example_shop ''o2'' (example_user ''alice'' 0) = Inl OrderNotFound
   \<and> get_order example_shop ''o2'' (example_user ''bob'' 10)
       = Inr (example_order ''o2'' ''bob'' ''completed'' ''2024-01-03'' (Some ''2024-01-05''))
   \<and> get_user_orders example_shop (example_user ''alice'' 0)
       = [example_order ''o1'' ''alice'' ''pending'' ''2024-01-02'' None]"
proof -
  have ne: "u_id (example_user ''alice'' 0) \<noteq> u_id (example_user ''bob'' 10)"
    by (simp add: example_user_def)
  have mem: "example_order ''o2'' ''bob'' ''completed'' ''2024-01-03'' (Some ''2024-01-05'')
       \<in> set (orders example_shop)"
    and dist: "distinct (map o_id (orders example_shop))"
    and own: "o_user_id (example_order ''o2'' ''bob'' ''completed'' ''2024-01-03'' (Some ''2024-01-05''))
        = u_id (example_user ''bob'' 10)"
    and oid: "o_id (example_order ''o2'' ''bob'' ''completed'' ''2024-01-03'' (Some ''2024-01-05''))
        = ''o2''"
    by (simp_all add: example_shop_def example_order_def example_user_def)
  have bobs: "get_order example_shop ''o2'' (example_user ''bob'' 10)
       = Inr (example_order ''o2'' ''bob'' ''completed'' ''2024-01-03'' (Some ''2024-01-05''))"
    by (simp add: get_order_def example_shop_def example_order_def example_user_def find_one_def)
  have listing: "get_user_orders example_shop (example_user ''alice'' 0)
       = [example_order ''o1'' ''alice'' ''pending'' ''2024-01-02'' None]"
    by (simp add: get_user_orders_def find_sorted_desc_def example_shop_def example_order_def
        example_user_def)
  from orders_isolated [OF ne, of example_shop "''o2''"] mem dist own
  have "get_order example_shop
          (o_id (example_order ''o2'' ''bob'' ''completed'' ''2024-01-03'' (Some ''2024-01-05'')))
          (example_user ''alice'' 0) = Inl OrderNotFound"
    by blast
  with ne mem dist bobs listing show ?thesis
    by (simp only: oid) blast
qed

section \<open>The ledger equation\<close>

text \<open>
  In exact arithmetic: when requests are served one after the other, the stored balance of a user
  at the end equals the balance at the start, plus the amounts of that user's deposits
  approved during the run, minus the total costs of the orders that user placed during
  the run. A request that fails contributes nothing and leaves the balance as it was,
  and so does the rejection of a deposit.
\<close>

theorem serial_ledger_balance:
  assumes "stored_balance d uid = Some b"
  shows "stored_balance (fst (serve d requests)) uid
           = Some (b + credits uid d requests - debits uid d requests)
    \<and> (\<forall>r e. snd (handle d r) = Inl e \<longrightarrow>
          credit uid d r = 0 \<and> debit uid d r = 0
          \<and> stored_balance (fst (handle d r)) uid = Some b)
    \<and> (\<forall>tok transaction_id.
          credit uid d (ResolveDeposit tok transaction_id ''reject'') = 0
          \<and> stored_balance (fst (handle d (ResolveDeposit tok transaction_id ''reject''))) uid
              = Some b)"
proof (intro conjI allI impI)
  show "stored_balance (fst (serve d requests)) uid
           = Some (b + credits uid d requests - debits uid d requests)"
    by (rule serve_ledger [OF assms])
next
  fix r e
  assume failed: "snd (handle d r) = Inl e"
  from failed_contributes_nothing [OF failed]
  show "credit uid d r = 0" and "debit uid d r = 0" by simp_all
  from stored_balance_users_same [OF handle_failed_users [OF failed]] assms
  show "stored_balance (fst (handle d r)) uid = Some b" by simp
next
  fix tok transaction_id
  from reject_contributes_nothing
  show "credit uid d (ResolveDeposit tok transaction_id ''reject'') = 0" by simp
  from stored_balance_users_same [OF handle_reject_users] assms
  show "stored_balance (fst (handle d (ResolveDeposit tok transaction_id ''reject''))) uid = Some b"
    by simp
qed

theorem serial_ledger_balance_witness:
  "stored_balance example_shop ''alice'' = Some 0
   \<and> credits ''alice'' example_shop example_requests = 20
   \<and> debits ''alice'' example_shop example_requests = 5 / 2
   \<and> stored_balance (fst (serve example_shop example_requests)) ''alice'' = Some (35 / 2)
   \<and> snd (handle example_shop (PlaceOrder alice (example_order_data 1000) ''o3'' ''2024-02-01''))
       = Inl InsufficientBalance
   \<and> stored_balance
        (fst (handle example_shop (PlaceOrder alice (example_order_data 1000) ''o3'' ''2024-02-01'')))
        ''alice'' = Some 0"
proof -
  note ledger = serial_ledger_balance [OF example_shop_balance, of example_requests]
  from ledger example_run
  have run: "stored_balance (fst (serve example_shop example_requests)) ''alice'' = Some (35 / 2)"
    by simp
  from ledger example_run
  have refused: "stored_balance
        (fst (handle example_shop (PlaceOrder alice (example_order_data 1000) ''o3'' ''2024-02-01'')))
        ''alice'' = Some 0"
    by blast
  from run refused example_run example_shop_balance show ?thesis
    by blast
qed

section \<open>Two placements interleaved\<close>

text \<open>
  Claim C10. Two order placements of the same user, interleaved at their storage calls,
  can both pass the balance check and both decrement the balance: with balance 3 and two
  orders that cost 2.50 each, alternating the two tasks step by step finishes both with
  an order and leaves the stored balance at -2. Each task checks the balance it loaded
  before the other one's decrement, and the decrement itself is unconditional. Served
  one after the other, the second placement is refused with \<open>InsufficientBalance\<close>.
\<close>

theorem concurrent_orders_overdraw:
  "stored_balance (example_db 3) ''alice'' = Some 3
   \<and> interleave (example_db 3)
       (AwaitUser alice (example_order_data 1000) ''o1'' ''2024-02-01'')
       (AwaitUser alice (example_order_data 1000) ''o2'' ''2024-02-02'')
       [True, False, True, False, True, False, True, False]
     = ((example_db 3)
          \<lparr>users := [example_user ''alice'' (- 2), example_user ''bob'' 10, example_admin],
           orders := [new_order (example_user ''alice'' 3) (example_order_data 1000) (5 / 2)
                        ''o1'' ''2024-02-01'',
                      new_order (example_user ''alice'' 3) (example_order_data 1000) (5 / 2)
                        ''o2'' ''2024-02-02'']\<rparr>,
        Finished (Inr (new_order (example_user ''alice'' 3) (example_order_data 1000) (5 / 2)
                        ''o1'' ''2024-02-01'')),
        Finished (Inr (new_order (example_user ''alice'' 3) (example_order_data 1000) (5 / 2)
                        ''o2'' ''2024-02-02'')))
   \<and> stored_balance
        (fst (interleave (example_db 3)
           (AwaitUser alice (example_order_data 1000) ''o1'' ''2024-02-01'')
           (AwaitUser alice (example_order_data 1000) ''o2'' ''2024-02-02'')
           [True, False, True, False, True, False, True, False])) ''alice'' = Some (- 2)
   \<and> interleave (example_db 3)
       (AwaitUser alice (example_order_data 1000) ''o1'' ''2024-02-01'')
       (AwaitUser alice (example_order_data 1000) ''o2'' ''2024-02-02'')
       [True, True, True, True, False, False, False, False]
     = ((example_db 3)
          \<lparr>users := [example_user ''alice'' (1 / 2), example_user ''bob'' 10, example_admin],
           orders := [new_order (example_user ''alice'' 3) (example_order_data 1000) (5 / 2)
                        ''o1'' ''2024-02-01'']\<rparr>,
        Finished (Inr (new_order (example_user ''alice'' 3) (example_order_data 1000) (5 / 2)
                        ''o1'' ''2024-02-01'')),
        Finished (Inl InsufficientBalance))"
proof (intro conjI)
  show "stored_balance (example_db 3) ''alice'' = Some 3"
    by (rule example_stored_balance)
  have svc: "find_one (\<lambda>s. s_id s = oc_service_id (example_order_data 1000)) (services d)
      = Some example_service" if "services d = services (example_db 3)" for d
    using example_find_service [of 1000 3] that by simp
  have q: "oc_quantity (example_order_data 1000) = 1000"
    and lo: "s_min_quantity example_service = 100"
    and hi: "s_max_quantity example_service = 10000"
    and cost: "total_cost_of 1000 (s_rate example_service) = 5 / 2"
    and b3: "u_balance (example_user ''alice'' 3) = 3"
    and uid: "u_id (example_user ''alice'' b) = ''alice''" for b
    by (simp_all add: example_order_data_def example_service_def total_cost_of_def example_user_def)
  have debit3: "inc_balance ''alice'' (- (5 / 2)) (users (example_db 3))
      = [example_user ''alice'' (1 / 2), example_user ''bob'' 10, example_admin]"
    and debit_again: "inc_balance ''alice'' (- (5 / 2))
        [example_user ''alice'' (1 / 2), example_user ''bob'' 10, example_admin]
      = [example_user ''alice'' (- 2), example_user ''bob'' 10, example_admin]"
    and orders0: "orders (example_db 3) = []"
    by (simp_all add: inc_balance_eq example_db_def example_user_def)
  have late: "get_current_user
      ((example_db 3)\<lparr>users := [example_user ''alice'' (1 / 2), example_user ''bob'' 10, example_admin],
          orders := os\<rparr>) alice = Inr (example_user ''alice'' (1 / 2))" for os
    by (simp add: get_current_user_def alice_def find_one_def example_user_def)
  have half: "u_balance (example_user ''alice'' (1 / 2)) = 1 / 2"
    by (simp add: example_user_def)
  show "interleave (example_db 3)
       (AwaitUser alice (example_order_data 1000) ''o1'' ''2024-02-01'')
       (AwaitUser alice (example_order_data 1000) ''o2'' ''2024-02-02'')
       [True, False, True, False, True, False, True, False]
     = ((example_db 3)
          \<lparr>users := [example_user ''alice'' (- 2), example_user ''bob'' 10, example_admin],
           orders := [new_order (example_user ''alice'' 3) (example_order_data 1000) (5 / 2)
                        ''o1'' ''2024-02-01'',
                      new_order (example_user ''alice'' 3) (example_order_data 1000) (5 / 2)
                        ''o2'' ''2024-02-02'']\<rparr>,
        Finished (Inr (new_order (example_user ''alice'' 3) (example_order_data 1000) (5 / 2)
                        ''o1'' ''2024-02-01'')),
        Finished (Inr (new_order (example_user ''alice'' 3) (example_order_data 1000) (5 / 2)
                        ''o2'' ''2024-02-02'')))"
    (is "?run = ?result")
    by (simp add: example_current_user svc q lo hi cost b3 uid debit3 debit_again orders0
        insert_one_def new_order_def)
  then show "stored_balance (fst ?run) ''alice'' = Some (- 2)"
    by (simp add: stored_balance_def find_one_def example_user_def)
  show "interleave (example_db 3)
       (AwaitUser alice (example_order_data 1000) ''o1'' ''2024-02-01'')
       (AwaitUser alice (example_order_data 1000) ''o2'' ''2024-02-02'')
       [True, True, True, True, False, False, False, False]
     = ((example_db 3)
          \<lparr>users := [example_user ''alice'' (1 / 2), example_user ''bob'' 10, example_admin],
           orders := [new_order (example_user ''alice'' 3) (example_order_data 1000) (5 / 2)
                        ''o1'' ''2024-02-01'']\<rparr>,
        Finished (Inr (new_order (example_user ''alice'' 3) (example_order_data 1000) (5 / 2)
                        ''o1'' ''2024-02-01'')),
        Finished (Inl InsufficientBalance))"
    by (simp add: example_current_user svc q lo hi cost b3 uid debit3 orders0 late half
        insert_one_def new_order_def)
qed

end
